theory Spec2Isabelle
  imports Main "HOL-Library.Sublist"
begin

section \<open>Python strings and POSIX paths\<close>

text \<open>
  Strings are byte lists. The helpers below follow the Python built-ins that
  \<^verbatim>\<open>app.py\<close> calls on strings and paths: \<^verbatim>\<open>str(n)\<close> for a non-negative integer,
  \<^verbatim>\<open>str.replace\<close>, \<^verbatim>\<open>str.lower\<close>, \<^verbatim>\<open>str.strip\<close>, \<^verbatim>\<open>str.join\<close>,
  \<^verbatim>\<open>os.path.join\<close>, \<^verbatim>\<open>os.path.basename\<close> and \<^verbatim>\<open>os.path.splitext\<close>
  (the POSIX versions, separator \<^verbatim>\<open>/\<close>). Case folding and white space are ASCII.
\<close>

fun str_nat :: "nat \<Rightarrow> string" where
  "str_nat n =
     (if n < 10 then [''0123456789'' ! n]
      else str_nat (n div 10) @ [''0123456789'' ! (n mod 10)])"

text \<open>\<^verbatim>\<open>s.replace(old, new)\<close> for a non-empty \<open>old\<close>: the occurrences are replaced
  from the left and do not overlap. (With an empty \<open>old\<close>, which the program never
  passes, nothing is replaced here.)\<close>

function str_replace :: "string \<Rightarrow> string \<Rightarrow> string \<Rightarrow> string" where
  "str_replace old new [] = []"
| "str_replace old new (c # cs) =
     (if old \<noteq> [] \<and> prefix old (c # cs)
      then new @ str_replace old new (drop (length old) (c # cs))
      else c # str_replace old new cs)"
  by pat_completeness auto
termination
  by (relation "measure (\<lambda>(old, new, s). length s)") auto

definition lower_char :: "char \<Rightarrow> char" where
  "lower_char c =
     (let n = (of_char c :: nat) in if 65 \<le> n \<and> n \<le> 90 then char_of (n + 32) else c)"

definition str_lower :: "string \<Rightarrow> string" where
  "str_lower s = map lower_char s"

definition is_space :: "char \<Rightarrow> bool" where
  "is_space c = ((of_char c :: nat) \<in> {9, 10, 11, 12, 13, 32})"

definition str_strip :: "string \<Rightarrow> string" where
  "str_strip s = rev (dropWhile is_space (rev (dropWhile is_space s)))"

fun str_join :: "string \<Rightarrow> string list \<Rightarrow> string" where
  "str_join sep [] = []"
| "str_join sep [x] = x"
| "str_join sep (x # y # ys) = x @ sep @ str_join sep (y # ys)"

definition path_join :: "string \<Rightarrow> string \<Rightarrow> string" where
  "path_join a b =
     (if b \<noteq> [] \<and> hd b = CHR ''/'' then b
      else if a = [] \<or> last a = CHR ''/'' then a @ b
      else a @ ''/'' @ b)"

definition basename :: "string \<Rightarrow> string" where
  "basename p = rev (takeWhile (\<lambda>c. c \<noteq> CHR ''/'') (rev p))"

text \<open>\<^verbatim>\<open>s.rfind(c)\<close>: the last index of the character, \<open>-1\<close> when it does not occur.\<close>

definition rfind :: "char \<Rightarrow> string \<Rightarrow> int" where
  "rfind c s =
     (case filter (\<lambda>i. s ! i = c) (rev [0..<length s]) of
        [] \<Rightarrow> - 1
      | i # _ \<Rightarrow> int i)"

text \<open>\<^verbatim>\<open>os.path.splitext(p)\<close>: the extension starts at the last dot, when that dot
  comes after the last separator and after a character of the file name that is not a
  dot.\<close>

definition splitext :: "string \<Rightarrow> string \<times> string" where
  "splitext p =
     (let sepIndex = rfind (CHR ''/'') p;
          dotIndex = rfind (CHR ''.'') p
      in if dotIndex > sepIndex
            \<and> list_ex (\<lambda>i. p ! i \<noteq> CHR ''.'') [nat (sepIndex + 1)..<nat dotIndex]
         then (take (nat dotIndex) p, drop (nat dotIndex) p)
         else (p, []))"

section \<open>Records of the data file\<close>

text \<open>
  A cell of the data frame as the program sees it. The program reads a cell only
  through \<^verbatim>\<open>pd.notna\<close>, \<^verbatim>\<open>str\<close> and f-string formatting, so a present scalar
  (a string, an integer, a finite float, a timestamp) is carried as the text
  \<^verbatim>\<open>str\<close> gives for it. \<open>NaN\<close> is the float that pandas puts in an empty cell,
  \<open>PyNone\<close> is Python's \<^verbatim>\<open>None\<close>.
\<close>

datatype cell = NaN | PyNone | Val string

fun notna :: "cell \<Rightarrow> bool" where
  "notna NaN = False"
| "notna PyNone = False"
| "notna (Val s) = True"

fun str_cell :: "cell \<Rightarrow> string" where
  "str_cell NaN = ''nan''"
| "str_cell PyNone = ''None''"
| "str_cell (Val s) = s"

type_synonym row_dict = "string \<Rightarrow> cell option"

text \<open>\<^verbatim>\<open>data.get(key, default)\<close>.\<close>

definition dict_get :: "row_dict \<Rightarrow> string \<Rightarrow> cell \<Rightarrow> cell" where
  "dict_get data key dflt = (case data key of None \<Rightarrow> dflt | Some v \<Rightarrow> v)"

text \<open>A value is absent from a record when the record has no such key, or holds
  NaN or \<^verbatim>\<open>None\<close> under it.\<close>

definition absent :: "row_dict \<Rightarrow> string \<Rightarrow> bool" where
  "absent data field =
     (case data field of
        None \<Rightarrow> True
      | Some NaN \<Rightarrow> True
      | Some PyNone \<Rightarrow> True
      | Some (Val s) \<Rightarrow> False)"

record frame =
  columns :: "string list"
  rows :: "cell list list"

text \<open>\<^verbatim>\<open>row.to_dict()\<close>: when two columns carry the same name, the later one wins.\<close>

definition to_dict :: "string list \<Rightarrow> cell list \<Rightarrow> row_dict" where
  "to_dict cols row = map_of (rev (zip cols row))"

section \<open>Documents, files and exceptions\<close>

text \<open>
  A page is its original content (opaque, named by a string) and the texts inserted on
  top of it, oldest first. \<open>Insert_Text\<close> holds the arguments of one call of
  \<^verbatim>\<open>page.insert_text(point, value, fontsize=, rotate=, color=)\<close>.
\<close>

datatype stamp = Insert_Text "int \<times> int" string nat nat "nat \<times> nat \<times> nat"

fun stamp_text :: "stamp \<Rightarrow> string" where
  "stamp_text (Insert_Text point val fontsize rot color) = val"

record page =
  body :: string
  inserted :: "stamp list"

text \<open>A file is a PDF document that PyMuPDF can open, or any other bytes (an uploaded
  data file, the report, a damaged PDF).\<close>

datatype file_content = Pdf "page list" | Bytes string

datatype error =
    FileNotFoundError string
  | FileDataError string
  | ValueError string
  | IndexError string
  | OSError string
  | ParserError string

text \<open>\<^verbatim>\<open>str(e)\<close>, as the f-string of the ERROR line formats the exception.\<close>

fun detail :: "error \<Rightarrow> string" where
  "detail (FileNotFoundError m) = m"
| "detail (FileDataError m) = m"
| "detail (ValueError m) = m"
| "detail (IndexError m) = m"
| "detail (OSError m) = m"
| "detail (ParserError m) = m"

text \<open>
  The file system is a store from path strings to files: two different strings are two
  different files. \<open>writable\<close> says where the operating system lets a file be created
  or overwritten (it refuses, for instance, a path in a directory that does not exist).
\<close>

record filesystem =
  files :: "string \<Rightarrow> file_content option"
  writable :: "string \<Rightarrow> bool"

definition path_exists :: "filesystem \<Rightarrow> string \<Rightarrow> bool" where
  "path_exists fs p = (files fs p \<noteq> None)"

definition os_remove :: "string \<Rightarrow> filesystem \<Rightarrow> filesystem" where
  "os_remove p fs = fs\<lparr>files := (files fs)(p := None)\<rparr>"

text \<open>A call either raises, or returns a value; both leave a file system behind.\<close>

datatype 'a result = Raise error filesystem | Return 'a filesystem

definition and_then :: "'a result \<Rightarrow> ('a \<Rightarrow> filesystem \<Rightarrow> 'b result) \<Rightarrow> 'b result" where
  "and_then r f = (case r of Raise e fs \<Rightarrow> Raise e fs | Return a fs \<Rightarrow> f a fs)"

subsection \<open>PyMuPDF\<close>

text \<open>
  An open document: the file name it was opened from (empty for \<^verbatim>\<open>fitz.open()\<close>)
  and its pages. The operations raise where PyMuPDF does: \<^verbatim>\<open>fitz.open(path)\<close> on a
  path that does not exist or is no document, \<^verbatim>\<open>load_page\<close> outside the document,
  \<^verbatim>\<open>save\<close> onto the file the document was opened from, of a document without pages
  (\<^verbatim>\<open>ValueError: cannot save with zero pages\<close>), or where the file cannot be
  written. The message texts are indicative.
\<close>

record document =
  name :: string
  pages :: "page list"

definition fitz_new :: document where
  "fitz_new = \<lparr>name = [], pages = []\<rparr>"

definition fitz_open :: "string \<Rightarrow> filesystem \<Rightarrow> document result" where
  "fitz_open filename fs =
     (case files fs filename of
        None \<Rightarrow> Raise (FileNotFoundError (''no such file: '' @ filename)) fs
      | Some (Pdf ps) \<Rightarrow> Return \<lparr>name = filename, pages = ps\<rparr> fs
      | Some (Bytes b) \<Rightarrow> Raise (FileDataError (''Failed to open file '' @ filename)) fs)"

text \<open>\<^verbatim>\<open>doc.insert_pdf(src)\<close> and \<^verbatim>\<open>doc.insert_pdf(src, from_page=n, to_page=n)\<close>.\<close>

definition insert_pdf :: "document \<Rightarrow> document \<Rightarrow> document" where
  "insert_pdf doc src = doc\<lparr>pages := pages doc @ pages src\<rparr>"

definition insert_pdf_page :: "document \<Rightarrow> document \<Rightarrow> nat \<Rightarrow> document" where
  "insert_pdf_page doc src page_num =
     doc\<lparr>pages := pages doc @ take 1 (drop page_num (pages src))\<rparr>"

definition load_page :: "document \<Rightarrow> nat \<Rightarrow> filesystem \<Rightarrow> page result" where
  "load_page doc n fs =
     (if n < length (pages doc) then Return (pages doc ! n) fs
      else Raise (ValueError ''page not in document'') fs)"

definition insert_text ::
  "page \<Rightarrow> int \<times> int \<Rightarrow> string \<Rightarrow> nat \<Rightarrow> nat \<Rightarrow> nat \<times> nat \<times> nat \<Rightarrow> page" where
  "insert_text pg point val fontsize rot color =
     pg\<lparr>inserted := inserted pg @ [Insert_Text point val fontsize rot color]\<rparr>"

definition fitz_save :: "document \<Rightarrow> string \<Rightarrow> filesystem \<Rightarrow> unit result" where
  "fitz_save doc filename fs =
     (if filename = name doc then Raise (ValueError ''save to original must be incremental'') fs
      else if pages doc = [] then Raise (ValueError ''cannot save with zero pages'') fs
      else if \<not> writable fs filename then Raise (OSError (''cannot create '' @ filename)) fs
      else Return () (fs\<lparr>files := (files fs)(filename \<mapsto> Pdf (pages doc))\<rparr>))"

section \<open>The helper functions\<close>

subsection \<open>\<^verbatim>\<open>split_pdf\<close>\<close>

definition page_file :: "nat \<Rightarrow> string" where
  "page_file page_num = ''page_'' @ str_nat (page_num + 1) @ ''.pdf''"

fun split_loop ::
  "document \<Rightarrow> string \<Rightarrow> nat list \<Rightarrow> string list \<Rightarrow> filesystem \<Rightarrow> string list result" where
  "split_loop pdf_document output_dir [] split_paths fs = Return split_paths fs"
| "split_loop pdf_document output_dir (page_num # rest) split_paths fs =
     (let split_pdf_path = path_join output_dir (page_file page_num);
          new_pdf = insert_pdf_page fitz_new pdf_document page_num
      in and_then (fitz_save new_pdf split_pdf_path fs)
           (\<lambda>u. split_loop pdf_document output_dir rest (split_paths @ [split_pdf_path])))"

definition split_pdf :: "string \<Rightarrow> string \<Rightarrow> filesystem \<Rightarrow> string list result" where
  "split_pdf input_pdf_path output_dir fs =
     and_then (fitz_open input_pdf_path fs)
       (\<lambda>pdf_document.
          split_loop pdf_document output_dir [0..<length (pages pdf_document)] [])"

subsection \<open>\<^verbatim>\<open>fill_page\<close>\<close>

text \<open>A placement is one point, or a sequence of points (the branch
  \<^verbatim>\<open>isinstance(coord[0], tuple)\<close>, which raises IndexError on an empty sequence).
  A placement table is a dictionary literal: its items come in the order written.\<close>

datatype coord = Point int int | Points "(int \<times> int) list"

fun insert_value :: "page \<Rightarrow> string \<Rightarrow> coord \<Rightarrow> filesystem \<Rightarrow> page result" where
  "insert_value pg val (Point x y) fs =
     Return (insert_text pg (x, y + 5) val 12 0 (0, 0, 0)) fs"
| "insert_value pg val (Points []) fs = Raise (IndexError ''tuple index out of range'') fs"
| "insert_value pg val (Points (c # cs)) fs =
     Return (foldl (\<lambda>pg (x, y). insert_text pg (x, y + 5) val 12 0 (0, 0, 0)) pg (c # cs)) fs"

fun fill_fields ::
  "page \<Rightarrow> row_dict \<Rightarrow> (string \<times> coord) list \<Rightarrow> filesystem \<Rightarrow> page result" where
  "fill_fields pg data [] fs = Return pg fs"
| "fill_fields pg data ((field, coord) # rest) fs =
     (case data field of
        None \<Rightarrow> fill_fields pg data rest fs
      | Some v \<Rightarrow>
          if notna v
          then and_then (insert_value pg (str_cell v) coord fs) (\<lambda>pg'. fill_fields pg' data rest)
          else fill_fields pg data rest fs)"

definition fill_page ::
  "string \<Rightarrow> row_dict \<Rightarrow> (string \<times> coord) list \<Rightarrow> filesystem \<Rightarrow> string result" where
  "fill_page pdf_path data coordinates fs =
     and_then (fitz_open pdf_path fs) (\<lambda>pdf_document fs.
     and_then (load_page pdf_document 0 fs) (\<lambda>pg fs.
     and_then (fill_fields pg data coordinates fs) (\<lambda>pg' fs.
       let temp_pdf_path = str_replace ''.pdf'' ''_filled.pdf'' pdf_path
       in and_then
            (fitz_save (pdf_document\<lparr>pages := (pages pdf_document)[0 := pg']\<rparr>) temp_pdf_path fs)
            (\<lambda>u. Return temp_pdf_path))))"

subsection \<open>\<^verbatim>\<open>merge_pdfs\<close>\<close>

fun merge_loop :: "document \<Rightarrow> string list \<Rightarrow> filesystem \<Rightarrow> document result" where
  "merge_loop merged_pdf [] fs = Return merged_pdf fs"
| "merge_loop merged_pdf (pdf_path # rest) fs =
     (if path_exists fs pdf_path
      then and_then (fitz_open pdf_path fs)
             (\<lambda>pdf_document. merge_loop (insert_pdf merged_pdf pdf_document) rest)
      else merge_loop merged_pdf rest fs)"

definition merge_pdfs :: "string \<Rightarrow> string list \<Rightarrow> filesystem \<Rightarrow> unit result" where
  "merge_pdfs output_pdf_path pdf_paths fs =
     and_then (merge_loop fitz_new pdf_paths fs)
       (\<lambda>merged_pdf. fitz_save merged_pdf output_pdf_path)"

section \<open>The request handler \<^verbatim>\<open>process_files\<close>\<close>

text \<open>
  What the handler takes from outside the program is gathered in \<open>env\<close>: the absolute
  path of the bundled template (\<^verbatim>\<open>os.path.abspath\<close> of its name), the run identifier
  (the clock, formatted by \<^verbatim>\<open>%Y%m%d_%H%M%S_%f\<close>), werkzeug's \<^verbatim>\<open>secure_filename\<close>,
  and the two pandas readers as functions from the bytes of a file to a frame or an
  exception.
\<close>

record env =
  local_template_path :: string
  run_id :: string
  secure_filename :: "string \<Rightarrow> string"
  read_csv :: "file_content \<Rightarrow> error + frame"
  read_excel :: "file_content \<Rightarrow> error + frame"

record uploaded =
  filename :: string
  payload :: string

datatype response =
    Bad_Request string
  | Server_Error string
  | Send_File string "(string \<times> file_content) list"
  | Uncaught error

definition UPLOAD_FOLDER :: string where
  "UPLOAD_FOLDER = ''uploads''"

definition COMPLETED_FOLDER :: string where
  "COMPLETED_FOLDER = ''completed''"

definition session_upload_folder :: "env \<Rightarrow> string" where
  "session_upload_folder ev = path_join UPLOAD_FOLDER (run_id ev)"

definition session_completed_folder :: "env \<Rightarrow> string" where
  "session_completed_folder ev = path_join COMPLETED_FOLDER (run_id ev)"

definition session_template_path :: "env \<Rightarrow> string" where
  "session_template_path ev = path_join (session_upload_folder ev) ''template.pdf''"

text \<open>Writing a file that is no PDF (\<^verbatim>\<open>data_file.save\<close>, \<^verbatim>\<open>open(path, "w")\<close>),
  \<^verbatim>\<open>shutil.copy\<close>, and a pandas reader applied to a path.\<close>

definition write_bytes :: "string \<Rightarrow> string \<Rightarrow> filesystem \<Rightarrow> unit result" where
  "write_bytes path b fs =
     (if writable fs path then Return () (fs\<lparr>files := (files fs)(path \<mapsto> Bytes b)\<rparr>)
      else Raise (OSError (''cannot create '' @ path)) fs)"

definition shutil_copy :: "string \<Rightarrow> string \<Rightarrow> filesystem \<Rightarrow> unit result" where
  "shutil_copy src dst fs =
     (case files fs src of
        None \<Rightarrow> Raise (FileNotFoundError (''no such file: '' @ src)) fs
      | Some f \<Rightarrow>
          if writable fs dst then Return () (fs\<lparr>files := (files fs)(dst \<mapsto> f)\<rparr>)
          else Raise (OSError (''cannot create '' @ dst)) fs)"

definition pd_read ::
  "(file_content \<Rightarrow> error + frame) \<Rightarrow> string \<Rightarrow> filesystem \<Rightarrow> frame result" where
  "pd_read reader path fs =
     (case files fs path of
        None \<Rightarrow> Raise (FileNotFoundError (''no such file: '' @ path)) fs
      | Some f \<Rightarrow> (case reader f of Inl e \<Rightarrow> Raise e fs | Inr df \<Rightarrow> Return df fs))"

subsection \<open>Lines 120 to 127: reading and normalising the data file\<close>

definition read_data :: "env \<Rightarrow> string \<Rightarrow> string \<Rightarrow> filesystem \<Rightarrow> frame result" where
  "read_data ev data_filename data_path fs =
     (let ext = str_lower (snd (splitext data_filename))
      in if ext = ''.csv'' then pd_read (read_csv ev) data_path fs
         else pd_read (read_excel ev) data_path fs)"

definition normalize_column :: "string \<Rightarrow> string" where
  "normalize_column c = str_replace '' '' [] (str_lower (str_strip c))"

definition rename_column :: "string \<Rightarrow> string" where
  "rename_column c =
     (case map_of
        [(''birthdate'', ''dob''), (''medicarenumber'', ''mc''),
         (''infusionlocation'', ''location''), (''height'', ''ht''), (''weight'', ''wt'')] c of
        None \<Rightarrow> c
      | Some d \<Rightarrow> d)"

definition normalize_frame :: "frame \<Rightarrow> frame" where
  "normalize_frame df = df\<lparr>columns := map (\<lambda>c. rename_column (normalize_column c)) (columns df)\<rparr>"

text \<open>\<^verbatim>\<open>df.iterrows()\<close> with \<^verbatim>\<open>row.to_dict()\<close>: the rows in order, each with its
  index from 0.\<close>

definition iterrows :: "frame \<Rightarrow> (nat \<times> row_dict) list" where
  "iterrows df = zip [0..<length (rows df)] (map (to_dict (columns df)) (rows df))"

subsection \<open>Lines 137 to 185: one record\<close>

definition coords_p1 :: "(string \<times> coord) list" where
  "coords_p1 =
     [(''mc'', Point 75 250), (''lastname'', Point 75 330), (''firstname'', Point 75 360),
      (''dob'', Point 75 400), (''wt'', Point 75 430), (''ht'', Point 75 475)]"

definition coords_p3 :: "(string \<times> coord) list" where
  "coords_p3 = [(''wt'', Point 325 525)]"

definition patient_name :: "row_dict \<Rightarrow> string" where
  "patient_name data =
     str_cell (dict_get data ''firstname'' (Val [])) @ '' ''
       @ str_cell (dict_get data ''lastname'' (Val ''N/A''))"

definition row_identifier :: "nat \<Rightarrow> row_dict \<Rightarrow> string" where
  "row_identifier index data =
     ''Row '' @ str_nat (index + 2) @ '' (Patient: '' @ patient_name data @ '')''"

definition out_filename :: "row_dict \<Rightarrow> string" where
  "out_filename data =
     str_cell (dict_get data ''lastname'' (Val ''unknown_lastname'')) @ ''_''
       @ str_cell (dict_get data ''firstname'' (Val ''unknown_firstname'')) @ ''_CDAI.pdf''"

text \<open>The clean-up loop of lines 174 and 175.\<close>

fun remove_existing :: "string list \<Rightarrow> filesystem \<Rightarrow> filesystem" where
  "remove_existing [] fs = fs"
| "remove_existing (p # ps) fs =
     remove_existing ps (if path_exists fs p then os_remove p fs else fs)"

text \<open>The body of the \<^verbatim>\<open>try\<close>, lines 150 to 175; it returns \<open>pages + filled_pages\<close>,
  the paths it went through in the clean-up loop.\<close>

definition try_block ::
  "string \<Rightarrow> string \<Rightarrow> row_dict \<Rightarrow> string \<Rightarrow> filesystem \<Rightarrow> string list result" where
  "try_block template_path upload_folder data out_pdf fs =
     and_then (split_pdf template_path upload_folder fs) (\<lambda>pages fs.
     and_then
       (if length pages > 0
        then and_then (fill_page (pages ! 0) data coords_p1 fs) (\<lambda>p. Return [p])
        else Return [] fs) (\<lambda>filled_pages fs.
     and_then
       (Return (if length pages > 1 then filled_pages @ [pages ! 1] else filled_pages) fs)
       (\<lambda>filled_pages fs.
     and_then
       (if length pages > 2
        then and_then (fill_page (pages ! 2) data coords_p3 fs)
               (\<lambda>p. Return (filled_pages @ [p]))
        else Return filled_pages fs) (\<lambda>filled_pages fs.
     and_then
       (Return (if length pages > 3 then filled_pages @ drop 3 pages else filled_pages) fs)
       (\<lambda>filled_pages fs.
     and_then (merge_pdfs out_pdf filled_pages fs) (\<lambda>u fs.
       Return (pages @ filled_pages) (remove_existing (pages @ filled_pages) fs)))))))"

record loop_state =
  processing_log :: "string list"
  generated_files :: "string list"
  disk :: filesystem

definition loop_body :: "env \<Rightarrow> loop_state \<Rightarrow> nat \<times> row_dict \<Rightarrow> loop_state" where
  "loop_body ev st r =
     (let index = fst r;
          data = snd r;
          fname = out_filename data;
          out_pdf = path_join (session_completed_folder ev) fname
      in case try_block (session_template_path ev) (session_upload_folder ev) data out_pdf
                (disk st) of
           Return ps fs' \<Rightarrow>
             \<lparr>processing_log = processing_log st
                @ [''SUCCESS: '' @ row_identifier index data @ '' -> Generated '' @ fname],
              generated_files = generated_files st @ [out_pdf],
              disk = fs'\<rparr>
         | Raise e fs' \<Rightarrow>
             \<lparr>processing_log = processing_log st
                @ [''ERROR: '' @ row_identifier index data
                   @ '' - An unexpected error occurred: '' @ detail e],
              generated_files = generated_files st,
              disk = fs'\<rparr>)"

fun process_rows :: "env \<Rightarrow> loop_state \<Rightarrow> (nat \<times> row_dict) list \<Rightarrow> loop_state" where
  "process_rows ev st [] = st"
| "process_rows ev st (r # rs) = process_rows ev (loop_body ev st r) rs"

subsection \<open>Lines 129 to 214: the batch\<close>

definition report_header :: "env \<Rightarrow> string \<Rightarrow> string list" where
  "report_header ev data_filename =
     [''--- CDAI PDF Processing Report ---'',
      ''Data file: '' @ data_filename,
      ''Using Default Template: '' @ local_template_path ev,
      ''\<newline>---\<newline>'']"

text \<open>The state when the loop over the rows is left.\<close>

definition after_loop :: "env \<Rightarrow> string \<Rightarrow> frame \<Rightarrow> filesystem \<Rightarrow> loop_state" where
  "after_loop ev data_filename df fs =
     process_rows ev
       \<lparr>processing_log = report_header ev data_filename, generated_files = [], disk = fs\<rparr>
       (iterrows (normalize_frame df))"

text \<open>\<^verbatim>\<open>zf.write(f, arcname=...)\<close> for each pair of a path and its name in the archive:
  the entries in the order written; two entries may carry one name.\<close>

fun zip_entries ::
  "(string \<times> string) list \<Rightarrow> filesystem \<Rightarrow> (string \<times> file_content) list result" where
  "zip_entries [] fs = Return [] fs"
| "zip_entries ((f, arcname) # rest) fs =
     (case files fs f of
        None \<Rightarrow> Raise (FileNotFoundError (''no such file: '' @ f)) fs
      | Some c \<Rightarrow> and_then (zip_entries rest fs) (\<lambda>es. Return ((arcname, c) # es)))"

definition write_zip ::
  "string \<Rightarrow> (string \<times> string) list \<Rightarrow> filesystem \<Rightarrow> (string \<times> file_content) list result" where
  "write_zip zip_path members fs =
     (if writable fs zip_path then zip_entries members fs
      else Raise (OSError (''cannot create '' @ zip_path)) fs)"

definition final_log :: "loop_state \<Rightarrow> string list" where
  "final_log st = processing_log st @ [''\<newline>---\<newline>Report finished.'']"

definition run_batch :: "env \<Rightarrow> string \<Rightarrow> frame \<Rightarrow> filesystem \<Rightarrow> response" where
  "run_batch ev data_filename df fs =
     (let st = after_loop ev data_filename df fs;
          report_content = str_join ''\<newline>'' (final_log st);
          report_path = path_join (session_completed_folder ev) ''processing_report.txt''
      in case write_bytes report_path report_content (disk st) of
           Raise e fs1 \<Rightarrow> Uncaught e
         | Return u fs1 \<Rightarrow>
             if generated_files st = [] \<and> length (final_log st) \<le> 4
             then Bad_Request
               ''Processing finished, but the data file was empty or no actions were taken.''
             else
               let zip_filename = ''CDAI_processed_'' @ run_id ev @ ''.zip'';
                   zip_path = path_join (session_completed_folder ev) zip_filename
               in (case write_zip zip_path
                          (map (\<lambda>f. (f, basename f)) (generated_files st)
                             @ [(report_path, ''processing_report.txt'')]) fs1 of
                     Raise e fs2 \<Rightarrow> Uncaught e
                   | Return archive fs2 \<Rightarrow> Send_File zip_path archive))"

subsection \<open>Lines 88 to 121: the checks of the request\<close>

definition process_files :: "env \<Rightarrow> uploaded option \<Rightarrow> filesystem \<Rightarrow> response" where
  "process_files ev data_file fs =
     (case data_file of
        None \<Rightarrow> Bad_Request ''Missing data file''
      | Some up \<Rightarrow>
          if \<not> path_exists fs (local_template_path ev)
          then Server_Error ''Server Error: Default PDF template not found.''
          else if filename up = [] then Bad_Request ''No selected file''
          else
            let data_filename = secure_filename ev (filename up);
                data_path = path_join (session_upload_folder ev) data_filename
            in (case write_bytes data_path (payload up) fs of
                  Raise e fs1 \<Rightarrow> Uncaught e
                | Return u fs1 \<Rightarrow>
                    (case shutil_copy (local_template_path ev) (session_template_path ev) fs1 of
                       Raise e fs2 \<Rightarrow> Uncaught e
                     | Return u fs2 \<Rightarrow>
                         (case read_data ev data_filename data_path fs2 of
                            Raise e fs3 \<Rightarrow> Uncaught e
                          | Return df fs3 \<Rightarrow> run_batch ev data_filename df fs3))))"

text \<open>How many of the rows leave the \<^verbatim>\<open>try\<close> without an exception, each tried in the
  state the rows before it left.\<close>

fun completed :: "env \<Rightarrow> loop_state \<Rightarrow> (nat \<times> row_dict) list \<Rightarrow> nat" where
  "completed ev st [] = 0"
| "completed ev st (r # rs) =
     (case try_block (session_template_path ev) (session_upload_folder ev) (snd r)
             (path_join (session_completed_folder ev) (out_filename (snd r))) (disk st) of
        Return ps fs' \<Rightarrow> 1
      | Raise e fs' \<Rightarrow> 0) + completed ev (loop_body ev st r) rs"

section \<open>Example inputs\<close>

text \<open>Concrete inputs on which the theorems below are exercised. In the example file
  systems a file can be written where its directory is one of the listed ones.\<close>

definition blank_page :: "string \<Rightarrow> page" where
  "blank_page b = \<lparr>body = b, inserted = []\<rparr>"

definition dirname :: "string \<Rightarrow> string" where
  "dirname p = rev (drop 1 (dropWhile (\<lambda>c. c \<noteq> CHR ''/'') (rev p)))"

definition in_dirs :: "string list \<Rightarrow> string \<Rightarrow> bool" where
  "in_dirs dirs p = (dirname p \<in> set dirs)"

definition demo_record :: row_dict where
  "demo_record = [''firstname'' \<mapsto> Val ''Ann'', ''lastname'' \<mapsto> NaN, ''wt'' \<mapsto> Val ''70'']"

definition one_page_fs :: filesystem where
  "one_page_fs = \<lparr>files = [''page_1.pdf'' \<mapsto> Pdf [blank_page ''page one'']],
                  writable = in_dirs ['''']\<rparr>"

definition reader_of :: "(string \<times> frame) list \<Rightarrow> file_content \<Rightarrow> error + frame" where
  "reader_of table f =
     (case f of
        Bytes b \<Rightarrow>
          (case map_of table b of
             Some df \<Rightarrow> Inr df
           | None \<Rightarrow> Inl (ParserError ''cannot parse the file''))
      | Pdf ps \<Rightarrow> Inl (ParserError ''cannot parse the file''))"

definition one_patient :: frame where
  "one_patient =
     \<lparr>columns = [''FirstName'', ''LastName'', ''Weight''],
      rows = [[Val ''Ann'', Val ''Doe'', Val ''70'']]\<rparr>"

definition mixed_patients :: frame where
  "mixed_patients =
     \<lparr>columns = [''FirstName'', ''LastName'', ''Weight''],
      rows = [[Val ''Cy'', Val ''O/Brien'', Val ''81''], [Val ''Ann'', Val ''Doe'', Val ''70'']]\<rparr>"

definition no_patients :: frame where
  "no_patients = \<lparr>columns = [''FirstName'', ''LastName'', ''Weight''], rows = []\<rparr>"

definition blank_lastname :: frame where
  "blank_lastname = \<lparr>columns = [''FirstName'', ''LastName''], rows = [[Val ''Ann'', NaN]]\<rparr>"

definition demo_env :: env where
  "demo_env =
     \<lparr>local_template_path = ''/app/BLANK_CDAI_APP_DEC-25.pdf'',
      run_id = ''20260101_120000_000000'',
      secure_filename = (\<lambda>s. s),
      read_csv = reader_of
        [(''two patients, as CSV'', mixed_patients), (''header only, as CSV'', no_patients),
         (''blank last name, as CSV'', blank_lastname)],
      read_excel = reader_of [(''one patient, as a workbook'', one_patient)]\<rparr>"

definition demo_template :: "page list" where
  "demo_template =
     [blank_page ''page one'', blank_page ''page two'', blank_page ''page three'',
      blank_page ''page four'']"

definition demo_fs :: filesystem where
  "demo_fs =
     \<lparr>files = [''/app/BLANK_CDAI_APP_DEC-25.pdf'' \<mapsto> Pdf demo_template],
      writable = in_dirs [''uploads/20260101_120000_000000'', ''completed/20260101_120000_000000'']\<rparr>"

definition demo_session_fs :: filesystem where
  "demo_session_fs =
     \<lparr>files = [''uploads/20260101_120000_000000/template.pdf'' \<mapsto> Pdf demo_template],
      writable = in_dirs [''uploads/20260101_120000_000000'', ''completed/20260101_120000_000000'']\<rparr>"

definition demo_start :: loop_state where
  "demo_start =
     \<lparr>processing_log = report_header demo_env ''data.csv'', generated_files = [],
      disk = demo_session_fs\<rparr>"

definition ann_doe :: row_dict where
  "ann_doe = [''firstname'' \<mapsto> Val ''Ann'', ''lastname'' \<mapsto> Val ''Doe'', ''wt'' \<mapsto> Val ''70'']"

definition cy_obrien :: row_dict where
  "cy_obrien = [''firstname'' \<mapsto> Val ''Cy'', ''lastname'' \<mapsto> Val ''O/Brien'', ''wt'' \<mapsto> Val ''81'']"

definition bob_roe :: row_dict where
  "bob_roe = [''firstname'' \<mapsto> Val ''Bob'', ''lastname'' \<mapsto> Val ''Roe'', ''wt'' \<mapsto> NaN]"

definition nameless :: row_dict where
  "nameless = [''wt'' \<mapsto> Val ''64'']"

definition demo_zip :: string where
  "demo_zip = ''completed/20260101_120000_000000/CDAI_processed_20260101_120000_000000.zip''"

definition ann_doe_pdf :: file_content where
  "ann_doe_pdf =
     Pdf [\<lparr>body = ''page one'',
            inserted = [Insert_Text (75, 335) ''Doe'' 12 0 (0, 0, 0),
                        Insert_Text (75, 365) ''Ann'' 12 0 (0, 0, 0),
                        Insert_Text (75, 435) ''70'' 12 0 (0, 0, 0)]\<rparr>,
          \<lparr>body = ''page two'', inserted = []\<rparr>,
          \<lparr>body = ''page three'', inserted = [Insert_Text (325, 530) ''70'' 12 0 (0, 0, 0)]\<rparr>,
          \<lparr>body = ''page four'', inserted = []\<rparr>]"

definition mixed_archive :: "(string \<times> file_content) list" where
  "mixed_archive =
     [(''Doe_Ann_CDAI.pdf'', ann_doe_pdf),
      (''processing_report.txt'',
       Bytes ''--- CDAI PDF Processing Report ---\<newline>Data file: data.csv\<newline>Using Default Template: /app/BLANK_CDAI_APP_DEC-25.pdf\<newline>\<newline>---\<newline>\<newline>ERROR: Row 2 (Patient: Cy O/Brien) - An unexpected error occurred: cannot create completed/20260101_120000_000000/O/Brien_Cy_CDAI.pdf\<newline>SUCCESS: Row 3 (Patient: Ann Doe) -> Generated Doe_Ann_CDAI.pdf\<newline>\<newline>---\<newline>Report finished.'')]"

section \<open>Basic facts\<close>

lemma and_then_Return [simp]: "and_then (Return a fs) f = f a fs"
  by (simp add: and_then_def)

lemma and_then_Raise [simp]: "and_then (Raise e fs) f = Raise e fs"
  by (simp add: and_then_def)

section \<open>Stamping skips absent values\<close>

lemma fill_fields_drop_absent:
  "absent data field \<Longrightarrow>
   fill_fields pg data (before @ (field, coord) # after) fs = fill_fields pg data (before @ after) fs"
proof (induction before arbitrary: pg fs)
  case Nil
  then show ?case
    by (cases "data field") (auto simp: absent_def split: cell.splits)
next
  case (Cons b before)
  obtain f c where b: "b = (f, c)" by (cases b)
  show ?case
  proof (cases "data f")
    case None
    with Cons b show ?thesis by simp
  next
    case (Some v)
    show ?thesis
    proof (cases "notna v")
      case False
      with Cons b Some show ?thesis by simp
    next
      case True
      show ?thesis
      proof (cases "insert_value pg (str_cell v) c fs")
        case (Raise e fs1)
        with b Some True show ?thesis by simp
      next
        case (Return pg1 fs1)
        with Cons b Some True show ?thesis by simp
      qed
    qed
  qed
qed

lemma foldl_insert_text_inserted:
  "inserted (foldl (\<lambda>pg (x, y). insert_text pg (x, y + 5) val 12 0 (0, 0, 0)) pg cs)
     = inserted pg @ map (\<lambda>(x, y). Insert_Text (x, y + 5) val 12 0 (0, 0, 0)) cs"
  by (induction cs arbitrary: pg) (auto simp: insert_text_def)

lemma insert_value_texts:
  "insert_value pg val c fs = Return pg' fs' \<Longrightarrow>
   \<forall>s \<in> set (inserted pg'). s \<in> set (inserted pg) \<or> stamp_text s = val"
proof (cases c)
  case (Point x y)
  assume "insert_value pg val c fs = Return pg' fs'"
  with Point show ?thesis by (auto simp: insert_text_def)
next
  case (Points cs)
  assume r: "insert_value pg val c fs = Return pg' fs'"
  show ?thesis
  proof (cases cs)
    case Nil
    with r Points show ?thesis by simp
  next
    case (Cons d ds)
    with r Points have "inserted pg' = inserted pg @ map (\<lambda>(x, y). Insert_Text (x, y + 5) val 12 0 (0, 0, 0)) cs"
      using foldl_insert_text_inserted [of val pg cs] by auto
    then show ?thesis by auto
  qed
qed

lemma fill_fields_texts:
  "fill_fields pg data coordinates fs = Return pg' fs' \<Longrightarrow>
   \<forall>s \<in> set (inserted pg').
      s \<in> set (inserted pg) \<or> (\<exists>field v. data field = Some (Val v) \<and> stamp_text s = v)"
proof (induction coordinates arbitrary: pg fs)
  case Nil
  then show ?case by simp
next
  case (Cons b rest)
  obtain f c where b: "b = (f, c)" by (cases b)
  show ?case
  proof (cases "data f")
    case None
    with Cons b show ?thesis by simp
  next
    case (Some v)
    show ?thesis
    proof (cases v)
      case NaN
      with Cons b Some show ?thesis by simp
    next
      case PyNone
      with Cons b Some show ?thesis by simp
    next
      case (Val t)
      show ?thesis
      proof (cases "insert_value pg t c fs")
        case (Raise e fs1)
        with Cons.prems b Some Val show ?thesis by simp
      next
        case (Return pg1 fs1)
        with Cons.prems b Some Val have "fill_fields pg1 data rest fs1 = Return pg' fs'" by simp
        from Cons.IH [OF this] insert_value_texts [OF Return] Some Val
        show ?thesis by blast
      qed
    qed
  qed
qed

text \<open>
  Claim C2. For every record and every field of the placement table: when the record's
  value for the field is absent (no such key, NaN or None), \<open>fill_page\<close> writes nothing
  for that field, that is, the page and the file it saves are the ones it would produce
  from the table without that field. Moreover every text that the loop over the table
  puts on the page is the text of a present value of the record, so an absent value is
  never rendered as "nan" or "None".
\<close>

theorem absent_fields_are_not_stamped:
  "(absent data field \<longrightarrow>
      fill_page pdf_path data (before @ (field, coord) # after) fs
        = fill_page pdf_path data (before @ after) fs)
   \<and> (fill_fields pg data coordinates fs = Return pg' fs' \<longrightarrow>
        (\<forall>s \<in> set (inserted pg').
           s \<in> set (inserted pg) \<or> (\<exists>f v. data f = Some (Val v) \<and> stamp_text s = v)))"
proof (intro conjI impI)
  assume "absent data field"
  then show "fill_page pdf_path data (before @ (field, coord) # after) fs
        = fill_page pdf_path data (before @ after) fs"
    by (simp add: fill_page_def fill_fields_drop_absent)
next
  assume "fill_fields pg data coordinates fs = Return pg' fs'"
  then show "\<forall>s \<in> set (inserted pg').
           s \<in> set (inserted pg) \<or> (\<exists>f v. data f = Some (Val v) \<and> stamp_text s = v)"
    by (rule fill_fields_texts)
qed


theorem absent_fields_are_not_stamped_witness:
  "absent demo_record ''lastname''
   \<and> fill_page ''page_1.pdf'' demo_record
        ([(''mc'', Point 75 250)] @ (''lastname'', Point 75 330) # [(''firstname'', Point 75 360)])
        one_page_fs
      = fill_page ''page_1.pdf'' demo_record
          ([(''mc'', Point 75 250)] @ [(''firstname'', Point 75 360)]) one_page_fs
   \<and> fill_fields (blank_page ''page one'') demo_record coords_p1 one_page_fs
      = Return \<lparr>body = ''page one'',
                 inserted = [Insert_Text (75, 365) ''Ann'' 12 0 (0, 0, 0),
                             Insert_Text (75, 435) ''70'' 12 0 (0, 0, 0)]\<rparr> one_page_fs
   \<and> demo_record ''firstname'' = Some (Val ''Ann'') \<and> demo_record ''wt'' = Some (Val ''70'')"
  using absent_fields_are_not_stamped
    [of demo_record "''lastname''" "''page_1.pdf''" "[(''mc'', Point 75 250)]" "Point 75 330"
        "[(''firstname'', Point 75 360)]" one_page_fs "blank_page ''page one''" coords_p1]
  by (simp add: absent_def demo_record_def coords_p1_def blank_page_def insert_text_def)

section \<open>Merging no pages\<close>

text \<open>
  Claim C6, as amended. \<open>merge_pdfs\<close> on an empty sequence of pages builds a document
  without pages and then saves it, which PyMuPDF refuses: the call raises ValueError and
  writes no output document.
\<close>

theorem merge_of_nothing_raises:
  "merge_pdfs output_pdf_path [] fs =
     Raise (ValueError (if output_pdf_path = [] then ''save to original must be incremental''
                        else ''cannot save with zero pages'')) fs"
  by (simp add: merge_pdfs_def fitz_save_def fitz_new_def)

theorem merge_of_nothing_counterexample:
  "merge_pdfs ''out.pdf'' [] one_page_fs = Raise (ValueError ''cannot save with zero pages'') one_page_fs
   \<and> files one_page_fs ''out.pdf'' = None"
  by (simp add: merge_pdfs_def fitz_save_def fitz_new_def one_page_fs_def)

section \<open>The loop over the rows\<close>

lemma process_rows_append:
  "process_rows ev st (xs @ ys) = process_rows ev (process_rows ev st xs) ys"
  by (induction xs arbitrary: st) auto

lemma loop_body_log:
  "\<exists>line. processing_log (loop_body ev st r) = processing_log st @ [line]"
  by (simp add: loop_body_def Let_def split: result.split)

lemma loop_body_log_length:
  "length (processing_log (loop_body ev st r)) = length (processing_log st) + 1"
  using loop_body_log [of ev st r] by auto

lemma process_rows_log_length:
  "length (processing_log (process_rows ev st rs)) = length (processing_log st) + length rs"
  by (induction rs arbitrary: st) (auto simp: loop_body_log_length)

lemma process_rows_log_prefix:
  "prefix (processing_log st) (processing_log (process_rows ev st rs))"
proof (induction rs arbitrary: st)
  case Nil
  show ?case by simp
next
  case (Cons r rs)
  obtain line where "processing_log (loop_body ev st r) = processing_log st @ [line]"
    using loop_body_log by blast
  then have "prefix (processing_log st) (processing_log (loop_body ev st r))" by simp
  with Cons [of "loop_body ev st r"] show ?case
    by (auto intro: prefix_order.trans)
qed

lemma process_rows_log_nth:
  "i < length (processing_log st) \<Longrightarrow>
   processing_log (process_rows ev st rs) ! i = processing_log st ! i"
  using process_rows_log_prefix [of st ev rs]
  by (auto simp: prefix_def nth_append)

lemma loop_body_Raise:
  "try_block (session_template_path ev) (session_upload_folder ev) data
       (path_join (session_completed_folder ev) (out_filename data)) (disk st) = Raise e fs'
   \<Longrightarrow> loop_body ev st (index, data)
        = \<lparr>processing_log = processing_log st
             @ [''ERROR: '' @ row_identifier index data
                @ '' - An unexpected error occurred: '' @ detail e],
           generated_files = generated_files st,
           disk = fs'\<rparr>"
  by (simp add: loop_body_def Let_def)

lemma loop_body_Return:
  "try_block (session_template_path ev) (session_upload_folder ev) data
       (path_join (session_completed_folder ev) (out_filename data)) (disk st) = Return ps fs'
   \<Longrightarrow> loop_body ev st (index, data)
        = \<lparr>processing_log = processing_log st
             @ [''SUCCESS: '' @ row_identifier index data @ '' -> Generated '' @ out_filename data],
           generated_files = generated_files st
             @ [path_join (session_completed_folder ev) (out_filename data)],
           disk = fs'\<rparr>"
  by (simp add: loop_body_def Let_def)

text \<open>
  Claim C1. For every batch and every record in it: when the record's \<^verbatim>\<open>try\<close> block (split,
  stamp, merge) raises an exception \<open>e\<close>, the loop goes on from the state in which the
  ERROR line with the row identifier and \<open>str(e)\<close> has been appended to the report, the
  list of generated files is unchanged, and the rows after it are processed; that line
  stands in the final report at the record's position, and the report has one line for
  every record of the batch.
\<close>

theorem failing_record_is_logged_and_skipped:
  assumes "try_block (session_template_path ev) (session_upload_folder ev) data
             (path_join (session_completed_folder ev) (out_filename data))
             (disk (process_rows ev st before)) = Raise e fs'"
  shows "process_rows ev st (before @ (index, data) # after)
           = process_rows ev
               \<lparr>processing_log = processing_log (process_rows ev st before)
                  @ [''ERROR: '' @ row_identifier index data
                     @ '' - An unexpected error occurred: '' @ detail e],
                generated_files = generated_files (process_rows ev st before),
                disk = fs'\<rparr> after
         \<and> processing_log (process_rows ev st (before @ (index, data) # after))
             ! (length (processing_log st) + length before)
           = ''ERROR: '' @ row_identifier index data
               @ '' - An unexpected error occurred: '' @ detail e
         \<and> length (processing_log (process_rows ev st (before @ (index, data) # after)))
           = length (processing_log st) + length before + 1 + length after"
proof -
  let ?mid = "process_rows ev st before"
  let ?line = "''ERROR: '' @ row_identifier index data
                     @ '' - An unexpected error occurred: '' @ detail e"
  let ?st' = "\<lparr>processing_log = processing_log ?mid @ [?line],
                generated_files = generated_files ?mid, disk = fs'\<rparr>"
  have step: "loop_body ev ?mid (index, data) = ?st'"
    using assms by (rule loop_body_Raise)
  have run: "process_rows ev st (before @ (index, data) # after) = process_rows ev ?st' after"
    by (simp add: process_rows_append step)
  have len: "length (processing_log ?mid) = length (processing_log st) + length before"
    by (rule process_rows_log_length)
  have "processing_log (process_rows ev ?st' after) ! (length (processing_log st) + length before)
          = processing_log ?st' ! (length (processing_log st) + length before)"
    by (rule process_rows_log_nth) (simp add: len)
  also have "\<dots> = ?line"
    by (simp add: nth_append len)
  finally have nth: "processing_log (process_rows ev ?st' after)
      ! (length (processing_log st) + length before) = ?line" .
  have "length (processing_log (process_rows ev ?st' after))
          = length (processing_log st) + length before + 1 + length after"
    by (simp add: process_rows_log_length len)
  with run nth show ?thesis by simp
qed

theorem failing_record_is_logged_and_skipped_witness:
  "(case try_block (session_template_path demo_env) (session_upload_folder demo_env) cy_obrien
             (path_join (session_completed_folder demo_env) (out_filename cy_obrien))
             (disk (process_rows demo_env demo_start [])) of
      Raise e fs' \<Rightarrow>
        e = OSError ''cannot create completed/20260101_120000_000000/O/Brien_Cy_CDAI.pdf''
    | Return ps fs' \<Rightarrow> False)
   \<and> processing_log
        (process_rows demo_env demo_start ([] @ (0, cy_obrien) # [(1, bob_roe)])) ! 4
      = ''ERROR: Row 2 (Patient: Cy O/Brien) - An unexpected error occurred: cannot create completed/20260101_120000_000000/O/Brien_Cy_CDAI.pdf''
   \<and> length (processing_log
        (process_rows demo_env demo_start ([] @ (0, cy_obrien) # [(1, bob_roe)]))) = 6"
proof -
  have h: "case try_block (session_template_path demo_env) (session_upload_folder demo_env) cy_obrien
             (path_join (session_completed_folder demo_env) (out_filename cy_obrien))
             (disk (process_rows demo_env demo_start [])) of
      Raise e fs' \<Rightarrow>
        e = OSError ''cannot create completed/20260101_120000_000000/O/Brien_Cy_CDAI.pdf''
    | Return ps fs' \<Rightarrow> False"
    by code_simp
  then obtain fs' where r: "try_block (session_template_path demo_env)
             (session_upload_folder demo_env) cy_obrien
             (path_join (session_completed_folder demo_env) (out_filename cy_obrien))
             (disk (process_rows demo_env demo_start []))
           = Raise (OSError ''cannot create completed/20260101_120000_000000/O/Brien_Cy_CDAI.pdf'') fs'"
    by (cases "try_block (session_template_path demo_env)
             (session_upload_folder demo_env) cy_obrien
             (path_join (session_completed_folder demo_env) (out_filename cy_obrien))
             (disk (process_rows demo_env demo_start []))") auto
  have id: "row_identifier 0 cy_obrien = ''Row 2 (Patient: Cy O/Brien)''"
    by code_simp
  have len: "length (processing_log demo_start) = 4"
    by (simp add: demo_start_def report_header_def)
  note t = failing_record_is_logged_and_skipped [OF r, of 0 "[(1, bob_roe)]", THEN conjunct2]
  from t h id len show ?thesis by simp
qed

section \<open>The archive and the report\<close>

lemma process_rows_generated:
  "length (generated_files (process_rows ev st rs))
     = length (generated_files st) + completed ev st rs"
proof (induction rs arbitrary: st)
  case Nil
  show ?case by simp
next
  case (Cons r rs)
  have "length (generated_files (loop_body ev st r))
          = length (generated_files st)
            + (case try_block (session_template_path ev) (session_upload_folder ev) (snd r)
                      (path_join (session_completed_folder ev) (out_filename (snd r))) (disk st) of
                 Return ps fs' \<Rightarrow> 1 | Raise e fs' \<Rightarrow> 0)"
    by (simp add: loop_body_def Let_def split: result.split)
  with Cons [of "loop_body ev st r"] show ?case by simp
qed

lemma length_iterrows: "length (iterrows (normalize_frame df)) = length (rows df)"
  by (simp add: iterrows_def normalize_frame_def)

lemma after_loop_log_length:
  "length (processing_log (after_loop ev data_filename df fs)) = length (rows df) + 4"
  by (simp add: after_loop_def process_rows_log_length length_iterrows report_header_def)

lemma final_log_length:
  "length (final_log (after_loop ev data_filename df fs)) = length (rows df) + 5"
  by (simp add: final_log_def after_loop_log_length)

lemma zip_entries_names:
  "zip_entries members fs = Return es fs' \<Longrightarrow> map fst es = map snd members"
proof (induction members arbitrary: es)
  case Nil
  then show ?case by simp
next
  case (Cons m members)
  obtain f a where m: "m = (f, a)" by (cases m)
  from Cons.prems m obtain c where c: "files fs f = Some c"
    by (cases "files fs f") auto
  from Cons.prems m c obtain es' where es': "zip_entries members fs = Return es' fs'"
      and es: "es = (a, c) # es'"
    by (cases "zip_entries members fs") auto
  from Cons.IH [OF es'] es m show ?case by simp
qed

lemma zip_entries_snoc:
  "zip_entries (members @ [(f, a)]) fs = Return es fs' \<Longrightarrow>
   \<exists>es' c. zip_entries members fs = Return es' fs' \<and> files fs f = Some c \<and> es = es' @ [(a, c)]"
proof (induction members arbitrary: es)
  case Nil
  then show ?case by (cases "files fs f") auto
next
  case (Cons m members)
  obtain g b where m: "m = (g, b)" by (cases m)
  from Cons.prems m obtain c where c: "files fs g = Some c"
    by (cases "files fs g") auto
  from Cons.prems m c obtain es1 where es1: "zip_entries (members @ [(f, a)]) fs = Return es1 fs'"
      and es: "es = (b, c) # es1"
    by (cases "zip_entries (members @ [(f, a)]) fs") auto
  from Cons.IH [OF es1] obtain es' d where
    "zip_entries members fs = Return es' fs'" "files fs f = Some d" "es1 = es' @ [(a, d)]"
    by blast
  with es m c show ?case by simp
qed

lemma empty_batch_signal_is_dead:
  "run_batch ev data_filename df fs
     \<noteq> Bad_Request ''Processing finished, but the data file was empty or no actions were taken.''"
proof -
  have "\<not> length (final_log (after_loop ev data_filename df fs)) \<le> 4"
    by (simp add: final_log_length)
  then show ?thesis
    by (simp add: run_batch_def Let_def split: result.split)
qed

text \<open>
  Claim C7. For every batch that ends with the archive being sent: the archive holds the
  per-record documents, named by the base names of the generated files, followed by the
  report as its last entry; the number of documents is the number of records whose
  \<^verbatim>\<open>try\<close> block ended without an exception; and the report has one entry for every row
  of the data file plus five fixed ones (four of the header, one of the footer). A line of
  the report is an entry of \<^verbatim>\<open>processing_log\<close>.
\<close>

theorem archive_and_report_counts:
  assumes "run_batch ev data_filename df fs = Send_File zip_path archive"
  shows "map fst (butlast archive)
           = map basename (generated_files (after_loop ev data_filename df fs))
         \<and> length (butlast archive)
           = completed ev
               \<lparr>processing_log = report_header ev data_filename, generated_files = [], disk = fs\<rparr>
               (iterrows (normalize_frame df))
         \<and> last archive
           = (''processing_report.txt'',
              Bytes (str_join ''\<newline>'' (final_log (after_loop ev data_filename df fs))))
         \<and> length (final_log (after_loop ev data_filename df fs)) = length (rows df) + 5"
proof -
  let ?st = "after_loop ev data_filename df fs"
  let ?report = "str_join ''\<newline>'' (final_log ?st)"
  let ?report_path = "path_join (session_completed_folder ev) ''processing_report.txt''"
  let ?members = "map (\<lambda>f. (f, basename f)) (generated_files ?st)"
  have long: "\<not> length (final_log ?st) \<le> 4"
    by (simp add: final_log_length)
  from assms obtain fs1 where w: "write_bytes ?report_path ?report (disk ?st) = Return () fs1"
    by (cases "write_bytes ?report_path ?report (disk ?st)")
       (auto simp: run_batch_def Let_def)
  then have fs1: "files fs1 ?report_path = Some (Bytes ?report)"
    by (auto simp: write_bytes_def split: if_splits)
  from assms w long obtain fs2 where
    z: "write_zip zip_path (?members @ [(?report_path, ''processing_report.txt'')]) fs1
          = Return archive fs2"
    by (cases "write_zip (path_join (session_completed_folder ev)
                            (''CDAI_processed_'' @ run_id ev @ ''.zip''))
                 (?members @ [(?report_path, ''processing_report.txt'')]) fs1")
       (auto simp: run_batch_def Let_def)
  then have "zip_entries (?members @ [(?report_path, ''processing_report.txt'')]) fs1
               = Return archive fs2"
    by (auto simp: write_zip_def split: if_splits)
  from zip_entries_snoc [OF this] fs1 obtain es where
    es: "zip_entries ?members fs1 = Return es fs2"
    and archive: "archive = es @ [(''processing_report.txt'', Bytes ?report)]"
    by auto
  have names: "map fst es = map basename (generated_files ?st)"
    using zip_entries_names [OF es] by (simp add: comp_def)
  have "length es = length (generated_files ?st)"
    using arg_cong [OF names, of length] by simp
  also have "\<dots> = completed ev
               \<lparr>processing_log = report_header ev data_filename, generated_files = [], disk = fs\<rparr>
               (iterrows (normalize_frame df))"
    by (simp add: after_loop_def process_rows_generated)
  finally have count: "length es = completed ev
               \<lparr>processing_log = report_header ev data_filename, generated_files = [], disk = fs\<rparr>
               (iterrows (normalize_frame df))" .
  from archive names count final_log_length [of ev data_filename df fs]
  show ?thesis by simp
qed

theorem archive_and_report_counts_witness:
  "run_batch demo_env ''data.csv'' mixed_patients demo_session_fs
     = Send_File demo_zip mixed_archive
   \<and> map fst (butlast mixed_archive) = [''Doe_Ann_CDAI.pdf'']
   \<and> completed demo_env demo_start (iterrows (normalize_frame mixed_patients)) = 1
   \<and> length (rows mixed_patients) = 2
   \<and> length (final_log (after_loop demo_env ''data.csv'' mixed_patients demo_session_fs)) = 7"
proof -
  have h: "run_batch demo_env ''data.csv'' mixed_patients demo_session_fs
     = Send_File demo_zip mixed_archive"
    by code_simp
  have n: "map fst (butlast mixed_archive) = [''Doe_Ann_CDAI.pdf'']"
    by (simp add: mixed_archive_def)
  have r: "length (rows mixed_patients) = 2"
    by (simp add: mixed_patients_def)
  from archive_and_report_counts [OF h] n r show ?thesis
    by (simp add: demo_start_def h mixed_archive_def)
qed

text \<open>
  Claim C3. The claim asks for the empty-batch signal on a data file without rows. The
  handler appends the footer before it compares the length of the log with 4, so with no
  rows the log has five entries and the test fails: the handler writes the report and sends
  an archive that holds the report alone.
\<close>

theorem zero_rows_still_send_an_archive:
  assumes "rows df = []"
    and "writable fs (path_join (session_completed_folder ev) ''processing_report.txt'')"
    and "writable fs (path_join (session_completed_folder ev)
                        (''CDAI_processed_'' @ run_id ev @ ''.zip''))"
  shows "run_batch ev data_filename df fs
           = Send_File
               (path_join (session_completed_folder ev) (''CDAI_processed_'' @ run_id ev @ ''.zip''))
               [(''processing_report.txt'',
                 Bytes (str_join ''\<newline>''
                          (report_header ev data_filename @ [''\<newline>---\<newline>Report finished.''])))]"
proof -
  have st: "after_loop ev data_filename df fs
          = \<lparr>processing_log = report_header ev data_filename, generated_files = [], disk = fs\<rparr>"
    using assms(1) by (simp add: after_loop_def iterrows_def normalize_frame_def)
  show ?thesis
    using assms(2,3)
    by (simp add: run_batch_def st final_log_def write_bytes_def write_zip_def
          report_header_def Let_def)
qed

theorem zero_rows_still_send_an_archive_witness:
  "rows no_patients = []
   \<and> writable demo_fs (path_join (session_completed_folder demo_env) ''processing_report.txt'')
   \<and> writable demo_fs (path_join (session_completed_folder demo_env)
                          (''CDAI_processed_'' @ run_id demo_env @ ''.zip''))
   \<and> run_batch demo_env ''data.csv'' no_patients demo_fs
      = Send_File demo_zip
          [(''processing_report.txt'',
            Bytes ''--- CDAI PDF Processing Report ---\<newline>Data file: data.csv\<newline>Using Default Template: /app/BLANK_CDAI_APP_DEC-25.pdf\<newline>\<newline>---\<newline>\<newline>\<newline>---\<newline>Report finished.'')]
   \<and> process_files demo_env
        (Some \<lparr>filename = ''data.csv'', payload = ''header only, as CSV''\<rparr>) demo_fs
      = Send_File demo_zip
          [(''processing_report.txt'',
            Bytes ''--- CDAI PDF Processing Report ---\<newline>Data file: data.csv\<newline>Using Default Template: /app/BLANK_CDAI_APP_DEC-25.pdf\<newline>\<newline>---\<newline>\<newline>\<newline>---\<newline>Report finished.'')]"
proof -
  have h1: "rows no_patients = []"
    by (simp add: no_patients_def)
  have h2: "writable demo_fs
              (path_join (session_completed_folder demo_env) ''processing_report.txt'')"
    by code_simp
  have h3: "writable demo_fs (path_join (session_completed_folder demo_env)
                          (''CDAI_processed_'' @ run_id demo_env @ ''.zip''))"
    by code_simp
  have z: "path_join (session_completed_folder demo_env)
             (''CDAI_processed_'' @ run_id demo_env @ ''.zip'') = demo_zip"
    by code_simp
  have t: "str_join ''\<newline>''
             (report_header demo_env ''data.csv'' @ [''\<newline>---\<newline>Report finished.''])
           = ''--- CDAI PDF Processing Report ---\<newline>Data file: data.csv\<newline>Using Default Template: /app/BLANK_CDAI_APP_DEC-25.pdf\<newline>\<newline>---\<newline>\<newline>\<newline>---\<newline>Report finished.''"
    by code_simp
  have p: "process_files demo_env
        (Some \<lparr>filename = ''data.csv'', payload = ''header only, as CSV''\<rparr>) demo_fs
      = Send_File demo_zip
          [(''processing_report.txt'',
            Bytes ''--- CDAI PDF Processing Report ---\<newline>Data file: data.csv\<newline>Using Default Template: /app/BLANK_CDAI_APP_DEC-25.pdf\<newline>\<newline>---\<newline>\<newline>\<newline>---\<newline>Report finished.'')]"
    by code_simp
  from zero_rows_still_send_an_archive [OF h1 h2 h3, of "''data.csv''"] h1 h2 h3 p
  show ?thesis
    unfolding z t by blast
qed

section \<open>The choice of the reader\<close>

text \<open>
  Claim C4, as amended. For every data file whose extension is not \<^verbatim>\<open>.csv\<close> (in any
  case), the handler hands the saved file to \<^verbatim>\<open>pd.read_excel\<close>: when that reader raises,
  the exception leaves the handler before any record is processed; when it returns a
  frame, the batch runs on it.
\<close>

theorem other_extensions_go_to_the_excel_reader:
  assumes "path_exists fs (local_template_path ev)"
    and "filename up \<noteq> []"
    and "str_lower (snd (splitext (secure_filename ev (filename up)))) \<noteq> ''.csv''"
    and "writable fs (path_join (session_upload_folder ev) (secure_filename ev (filename up)))"
    and "writable fs (session_template_path ev)"
  shows "process_files ev (Some up) fs =
     (let data_filename = secure_filename ev (filename up);
          data_path = path_join (session_upload_folder ev) data_filename;
          fs1 = fs\<lparr>files := (files fs)(data_path \<mapsto> Bytes (payload up))\<rparr>;
          fs2 = fs1\<lparr>files := (files fs1)(session_template_path ev
                                    \<mapsto> the (files fs1 (local_template_path ev)))\<rparr>
      in case read_excel ev (the (files fs2 data_path)) of
           Inl e \<Rightarrow> Uncaught e
         | Inr df \<Rightarrow> run_batch ev data_filename df fs2)"
proof -
  define dname where "dname = secure_filename ev (filename up)"
  define dpath where "dpath = path_join (session_upload_folder ev) dname"
  define fs1 where "fs1 = fs\<lparr>files := (files fs)(dpath \<mapsto> Bytes (payload up))\<rparr>"
  define fs2 where "fs2 = fs1\<lparr>files := (files fs1)(session_template_path ev
                                    \<mapsto> the (files fs1 (local_template_path ev)))\<rparr>"
  have w1: "write_bytes dpath (payload up) fs = Return () fs1"
    using assms(4) by (simp add: write_bytes_def fs1_def dpath_def dname_def)
  from assms(1) obtain t where t: "files fs1 (local_template_path ev) = Some t"
    by (cases "local_template_path ev = dpath") (auto simp: path_exists_def fs1_def)
  have "writable fs1 (session_template_path ev)"
    using assms(5) by (simp add: fs1_def)
  then have w2: "shutil_copy (local_template_path ev) (session_template_path ev) fs1 = Return () fs2"
    using t by (simp add: shutil_copy_def fs2_def)
  have "files fs2 dpath \<noteq> None"
    by (cases "dpath = session_template_path ev") (simp_all add: fs2_def fs1_def)
  then obtain d where d: "files fs2 dpath = Some d"
    by blast
  have ext: "str_lower (snd (splitext dname)) \<noteq> ''.csv''"
    using assms(3) by (simp add: dname_def)
  have r: "read_data ev dname dpath fs2
             = (case read_excel ev d of Inl e \<Rightarrow> Raise e fs2 | Inr df \<Rightarrow> Return df fs2)"
    using ext d by (simp add: read_data_def pd_read_def Let_def)
  have "process_files ev (Some up) fs
          = (case read_data ev dname dpath fs2 of
               Raise e fs3 \<Rightarrow> Uncaught e
             | Return df fs3 \<Rightarrow> run_batch ev dname df fs3)"
    using assms(1,2) w1 w2
    by (simp add: process_files_def Let_def dname_def [symmetric] dpath_def [symmetric])
  also have "\<dots> = (case read_excel ev (the (files fs2 dpath)) of
                      Inl e \<Rightarrow> Uncaught e
                    | Inr df \<Rightarrow> run_batch ev dname df fs2)"
    by (simp add: r d split: sum.split)
  finally show ?thesis
    unfolding Let_def fs2_def fs1_def dpath_def dname_def .
qed

theorem other_extensions_go_to_the_excel_reader_witness:
  "path_exists demo_fs (local_template_path demo_env)
   \<and> str_lower (snd (splitext ''notes.dat'')) = ''.dat''
   \<and> writable demo_fs (path_join (session_upload_folder demo_env) ''notes.dat'')
   \<and> writable demo_fs (session_template_path demo_env)
   \<and> process_files demo_env (Some \<lparr>filename = ''notes.dat'', payload = ''not a table''\<rparr>) demo_fs
      = Uncaught (ParserError ''cannot parse the file'')"
proof -
  let ?up = "\<lparr>filename = ''notes.dat'', payload = ''not a table''\<rparr>"
  have s: "secure_filename demo_env (filename ?up) = ''notes.dat''"
    by (simp add: demo_env_def)
  have h1: "path_exists demo_fs (local_template_path demo_env)"
    by code_simp
  have h2: "filename ?up \<noteq> []"
    by simp
  have e: "str_lower (snd (splitext ''notes.dat'')) = ''.dat''"
    by code_simp
  have h3: "str_lower (snd (splitext (secure_filename demo_env (filename ?up)))) \<noteq> ''.csv''"
    unfolding s e by simp
  have w: "writable demo_fs (path_join (session_upload_folder demo_env) ''notes.dat'')"
    by code_simp
  have h4: "writable demo_fs
      (path_join (session_upload_folder demo_env) (secure_filename demo_env (filename ?up)))"
    unfolding s by (rule w)
  have h5: "writable demo_fs (session_template_path demo_env)"
    by code_simp
  have v: "(let data_filename = secure_filename demo_env (filename ?up);
          data_path = path_join (session_upload_folder demo_env) data_filename;
          fs1 = demo_fs\<lparr>files := (files demo_fs)(data_path \<mapsto> Bytes (payload ?up))\<rparr>;
          fs2 = fs1\<lparr>files := (files fs1)(session_template_path demo_env
                                    \<mapsto> the (files fs1 (local_template_path demo_env)))\<rparr>
      in case read_excel demo_env (the (files fs2 data_path)) of
           Inl e \<Rightarrow> Uncaught e
         | Inr df \<Rightarrow> run_batch demo_env data_filename df fs2)
       = Uncaught (ParserError ''cannot parse the file'')"
    by code_simp
  from other_extensions_go_to_the_excel_reader [OF h1 h2 h3 h4 h5] v h1 e w h5
  show ?thesis by simp
qed

text \<open>A workbook uploaded under the name \<^verbatim>\<open>patients.txt\<close> is read and processed.\<close>

theorem unsupported_extension_counterexample:
  "str_lower (snd (splitext ''patients.txt'')) = ''.txt''
   \<and> process_files demo_env
        (Some \<lparr>filename = ''patients.txt'', payload = ''one patient, as a workbook''\<rparr>) demo_fs
      = Send_File demo_zip
          [(''Doe_Ann_CDAI.pdf'', ann_doe_pdf),
           (''processing_report.txt'',
            Bytes ''--- CDAI PDF Processing Report ---\<newline>Data file: patients.txt\<newline>Using Default Template: /app/BLANK_CDAI_APP_DEC-25.pdf\<newline>\<newline>---\<newline>\<newline>SUCCESS: Row 2 (Patient: Ann Doe) -> Generated Doe_Ann_CDAI.pdf\<newline>\<newline>---\<newline>Report finished.'')]"
  by code_simp

section \<open>Names of the record in the report and in the archive\<close>

text \<open>
  Claim C9. The claim asks for the placeholder whenever a name field is absent. For a row
  whose LastName cell is empty the record holds NaN under \<^verbatim>\<open>lastname\<close>; the key is there,
  so \<^verbatim>\<open>data.get\<close> returns NaN and the document is named \<^verbatim>\<open>nan_Ann_CDAI.pdf\<close>, the
  record being logged as SUCCESS.
\<close>

theorem blank_lastname_is_named_nan:
  "absent [''firstname'' \<mapsto> Val ''Ann'', ''lastname'' \<mapsto> NaN] ''lastname''
   \<and> out_filename [''firstname'' \<mapsto> Val ''Ann'', ''lastname'' \<mapsto> NaN] = ''nan_Ann_CDAI.pdf''
   \<and> process_files demo_env
        (Some \<lparr>filename = ''data.csv'', payload = ''blank last name, as CSV''\<rparr>) demo_fs
      = Send_File demo_zip
          [(''nan_Ann_CDAI.pdf'',
            Pdf [\<lparr>body = ''page one'',
                   inserted = [Insert_Text (75, 365) ''Ann'' 12 0 (0, 0, 0)]\<rparr>,
                 \<lparr>body = ''page two'', inserted = []\<rparr>,
                 \<lparr>body = ''page three'', inserted = []\<rparr>,
                 \<lparr>body = ''page four'', inserted = []\<rparr>]),
           (''processing_report.txt'',
            Bytes ''--- CDAI PDF Processing Report ---\<newline>Data file: data.csv\<newline>Using Default Template: /app/BLANK_CDAI_APP_DEC-25.pdf\<newline>\<newline>---\<newline>\<newline>SUCCESS: Row 2 (Patient: Ann nan) -> Generated nan_Ann_CDAI.pdf\<newline>\<newline>---\<newline>Report finished.'')]"
  by code_simp

text \<open>
  Claim C10. For every record that has no \<^verbatim>\<open>lastname\<close> key: the patient name of the report
  line ends in the placeholder N/A (and starts with the empty string when the
  \<^verbatim>\<open>firstname\<close> key is missing too), whereas the file name starts with
  unknown_lastname (and goes on with unknown_firstname); so the SUCCESS line of the record
  and the generated file carry different names for it.
\<close>

theorem missing_lastname_is_named_differently:
  assumes "data ''lastname'' = None"
  shows "patient_name data = str_cell (dict_get data ''firstname'' (Val [])) @ '' N/A''
       \<and> out_filename data
           = ''unknown_lastname_''
               @ str_cell (dict_get data ''firstname'' (Val ''unknown_firstname'')) @ ''_CDAI.pdf''
       \<and> (data ''firstname'' = None \<longrightarrow>
            row_identifier index data = ''Row '' @ str_nat (index + 2) @ '' (Patient:  N/A)''
            \<and> out_filename data = ''unknown_lastname_unknown_firstname_CDAI.pdf'')
       \<and> (\<forall>ps fs'.
            try_block (session_template_path ev) (session_upload_folder ev) data
              (path_join (session_completed_folder ev) (out_filename data)) (disk st)
              = Return ps fs' \<longrightarrow>
            last (processing_log (loop_body ev st (index, data)))
              = ''SUCCESS: Row '' @ str_nat (index + 2) @ '' (Patient: ''
                  @ str_cell (dict_get data ''firstname'' (Val [])) @ '' N/A) -> Generated ''
                  @ ''unknown_lastname_''
                  @ str_cell (dict_get data ''firstname'' (Val ''unknown_firstname''))
                  @ ''_CDAI.pdf''
            \<and> last (generated_files (loop_body ev st (index, data)))
              = path_join (session_completed_folder ev)
                  (''unknown_lastname_''
                     @ str_cell (dict_get data ''firstname'' (Val ''unknown_firstname''))
                     @ ''_CDAI.pdf''))"
proof -
  have pn: "patient_name data = str_cell (dict_get data ''firstname'' (Val [])) @ '' N/A''"
    using assms by (simp add: patient_name_def dict_get_def)
  have fn: "out_filename data
           = ''unknown_lastname_''
               @ str_cell (dict_get data ''firstname'' (Val ''unknown_firstname'')) @ ''_CDAI.pdf''"
    using assms by (simp add: out_filename_def dict_get_def)
  have both: "data ''firstname'' = None \<longrightarrow>
            row_identifier index data = ''Row '' @ str_nat (index + 2) @ '' (Patient:  N/A)''
            \<and> out_filename data = ''unknown_lastname_unknown_firstname_CDAI.pdf''"
    using assms by (simp add: row_identifier_def patient_name_def out_filename_def dict_get_def)
  have run: "\<forall>ps fs'.
            try_block (session_template_path ev) (session_upload_folder ev) data
              (path_join (session_completed_folder ev) (out_filename data)) (disk st)
              = Return ps fs' \<longrightarrow>
            last (processing_log (loop_body ev st (index, data)))
              = ''SUCCESS: Row '' @ str_nat (index + 2) @ '' (Patient: ''
                  @ str_cell (dict_get data ''firstname'' (Val [])) @ '' N/A) -> Generated ''
                  @ ''unknown_lastname_''
                  @ str_cell (dict_get data ''firstname'' (Val ''unknown_firstname''))
                  @ ''_CDAI.pdf''
            \<and> last (generated_files (loop_body ev st (index, data)))
              = path_join (session_completed_folder ev)
                  (''unknown_lastname_''
                     @ str_cell (dict_get data ''firstname'' (Val ''unknown_firstname''))
                     @ ''_CDAI.pdf'')"
  proof (intro allI impI)
    fix ps fs'
    assume "try_block (session_template_path ev) (session_upload_folder ev) data
              (path_join (session_completed_folder ev) (out_filename data)) (disk st)
              = Return ps fs'"
    from loop_body_Return [OF this, of index] show
      "last (processing_log (loop_body ev st (index, data)))
              = ''SUCCESS: Row '' @ str_nat (index + 2) @ '' (Patient: ''
                  @ str_cell (dict_get data ''firstname'' (Val [])) @ '' N/A) -> Generated ''
                  @ ''unknown_lastname_''
                  @ str_cell (dict_get data ''firstname'' (Val ''unknown_firstname''))
                  @ ''_CDAI.pdf''
            \<and> last (generated_files (loop_body ev st (index, data)))
              = path_join (session_completed_folder ev)
                  (''unknown_lastname_''
                     @ str_cell (dict_get data ''firstname'' (Val ''unknown_firstname''))
                     @ ''_CDAI.pdf'')"
      using fn by (simp add: row_identifier_def pn del: str_nat.simps)
  qed
  from pn fn both run show ?thesis by blast
qed

theorem missing_lastname_is_named_differently_witness:
  "nameless ''lastname'' = None \<and> nameless ''firstname'' = None
   \<and> row_identifier 3 nameless = ''Row 5 (Patient:  N/A)''
   \<and> out_filename nameless = ''unknown_lastname_unknown_firstname_CDAI.pdf''
   \<and> last (processing_log (loop_body demo_env demo_start (3, nameless)))
      = ''SUCCESS: Row 5 (Patient:  N/A) -> Generated unknown_lastname_unknown_firstname_CDAI.pdf''
   \<and> last (generated_files (loop_body demo_env demo_start (3, nameless)))
      = ''completed/20260101_120000_000000/unknown_lastname_unknown_firstname_CDAI.pdf''"
proof -
  have h: "nameless ''lastname'' = None"
    by (simp add: nameless_def)
  have f: "nameless ''firstname'' = None"
    by (simp add: nameless_def)
  have lg: "last (processing_log (loop_body demo_env demo_start (3, nameless)))
      = ''SUCCESS: Row 5 (Patient:  N/A) -> Generated unknown_lastname_unknown_firstname_CDAI.pdf''
    \<and> last (generated_files (loop_body demo_env demo_start (3, nameless)))
      = ''completed/20260101_120000_000000/unknown_lastname_unknown_firstname_CDAI.pdf''"
    by code_simp
  have n: "str_nat (3 + 2) = ''5''"
    by code_simp
  note t = missing_lastname_is_named_differently
         [where data = nameless and index = 3 and ev = demo_env and st = demo_start, OF h]
  from t f have "row_identifier 3 nameless = ''Row '' @ str_nat (3 + 2) @ '' (Patient:  N/A)''"
    and o: "out_filename nameless = ''unknown_lastname_unknown_firstname_CDAI.pdf''"
    by blast+
  then have "row_identifier 3 nameless = ''Row 5 (Patient:  N/A)''"
    unfolding n by simp
  with o h f lg show ?thesis by blast
qed

section \<open>Intermediate page files\<close>

text \<open>
  Claim C5. The claim asks for the intermediate page documents to be deleted on the failure
  path too. The clean-up loop is the last statement inside the \<^verbatim>\<open>try\<close>; when the merge
  raises (here the output path lies in a directory that does not exist, the last name
  holding a slash), the loop is skipped and the four split pages and the two stamped pages
  stay on disk.
\<close>

theorem failed_record_leaves_its_pages:
  "map (path_exists (disk demo_start))
     [''uploads/20260101_120000_000000/page_1.pdf'', ''uploads/20260101_120000_000000/page_2.pdf'',
      ''uploads/20260101_120000_000000/page_3.pdf'', ''uploads/20260101_120000_000000/page_4.pdf'',
      ''uploads/20260101_120000_000000/page_1_filled.pdf'',
      ''uploads/20260101_120000_000000/page_3_filled.pdf'']
     = [False, False, False, False, False, False]
   \<and> map (path_exists (disk (loop_body demo_env demo_start (0, cy_obrien))))
     [''uploads/20260101_120000_000000/page_1.pdf'', ''uploads/20260101_120000_000000/page_2.pdf'',
      ''uploads/20260101_120000_000000/page_3.pdf'', ''uploads/20260101_120000_000000/page_4.pdf'',
      ''uploads/20260101_120000_000000/page_1_filled.pdf'',
      ''uploads/20260101_120000_000000/page_3_filled.pdf'']
     = [True, True, True, True, True, True]
   \<and> processing_log (loop_body demo_env demo_start (0, cy_obrien))
     = report_header demo_env ''data.csv''
       @ [''ERROR: Row 2 (Patient: Cy O/Brien) - An unexpected error occurred: cannot create completed/20260101_120000_000000/O/Brien_Cy_CDAI.pdf'']"
  by code_simp

end
